theory Spec2Isabelle
  imports Main
begin

section \<open>The three revisions of the upload form\<close>

text \<open>
  The repository holds three revisions of one React component \<open>App\<close>:
  \<^verbatim>\<open>src/src/App.jsx\<close>, \<^verbatim>\<open>src/unnamed/part_000\<close> and \<^verbatim>\<open>src/unnamed/part_001\<close>.
  Each revision is embedded on its own, function by function, and a dispatcher over
  \<open>revision\<close> lets a statement range over all of them.
\<close>

datatype revision = AppJsx | Part000 | Part001

section \<open>JavaScript values\<close>

text \<open>
  Error objects: the \<open>ReferenceError\<close> of an unbound identifier (its name), the
  \<open>TypeError\<close> of a property read on \<open>undefined\<close>/\<open>null\<close> or of a call of a
  non-function (the expression), the \<open>AxiosError\<close> a rejected \<open>axios.post\<close> carries
  (its code), and the error React raises for an object used as a child.
\<close>

datatype js_error =
    ReferenceError string
  | TypeError string
  | AxiosError string
  | ReactChildError

text \<open>
  The values the component handles: what \<open>JSON.parse\<close> produces, \<open>undefined\<close>, and a
  caught error object. \<open>Num\<close> carries the integers (scores, years); \<open>Obj\<close> lists the own
  properties of an object.
\<close>

datatype jsval =
    Undefined
  | Null
  | Bool bool
  | Num int
  | Str string
  | Arr "jsval list"
  | Obj "(string \<times> jsval) list"
  | Exn js_error

text \<open>ToBoolean: \<open>undefined\<close>, \<open>null\<close>, \<open>false\<close>, \<open>0\<close> and \<open>""\<close> are falsy, all else truthy.\<close>

fun truthy :: "jsval \<Rightarrow> bool" where
  "truthy Undefined = False"
| "truthy Null = False"
| "truthy (Bool b) = b"
| "truthy (Num n) = (n \<noteq> 0)"
| "truthy (Str s) = (s \<noteq> [])"
| "truthy (Arr xs) = True"
| "truthy (Obj kvs) = True"
| "truthy (Exn e) = True"

text \<open>
  Evaluating a statement or an expression returns a value, throws, or leaves the fragment
  of JavaScript modelled here (\<open>Unmodelled\<close>: a numeric comparison of a string, an array
  or an object, reading an error object's own fields, and printing a number that a double
  does not hold exactly).
\<close>

datatype 'a outcome = Ok 'a | Throws js_error | Unmodelled

definition bind :: "'a outcome \<Rightarrow> ('a \<Rightarrow> 'b outcome) \<Rightarrow> 'b outcome" where
  "bind m f = (case m of Ok x \<Rightarrow> f x | Throws e \<Rightarrow> Throws e | Unmodelled \<Rightarrow> Unmodelled)"

section \<open>Component state\<close>

datatype file_obj = File (file_name: string) (file_bytes: string)

text \<open>
  What \<open>useState(null)\<close> for \<open>files\<close> can hold: the initial \<open>null\<close>, \<open>undefined\<close>
  (\<open>e.target.files[0]\<close> of an empty selection), one \<open>File\<close>, or a whole \<open>FileList\<close>.
\<close>

datatype filesval = FNull | FUndefined | FFile file_obj | FFileList "file_obj list"

fun files_truthy :: "filesval \<Rightarrow> bool" where
  "files_truthy FNull = False"
| "files_truthy FUndefined = False"
| "files_truthy (FFile f) = True"
| "files_truthy (FFileList fs) = True"

record app_state =
  files :: filesval
  response :: jsval
  loading :: bool

text \<open>The initial state: \<open>useState(null)\<close>, \<open>useState(null)\<close>, \<open>useState(false)\<close>.\<close>

definition initial :: app_state where
  "initial = \<lparr>files = FNull, response = Null, loading = False\<rparr>"

subsection \<open>The file picker's \<open>onChange\<close>\<close>

text \<open>
  The argument is \<open>e.target.files\<close>, the picker's \<open>FileList\<close>.
  \<^verbatim>\<open>src/src/App.jsx\<close> line 31: \<^verbatim>\<open>setFiles(e.target.files)\<close>;
  the two other revisions: \<^verbatim>\<open>setFiles(e.target.files[0])\<close>, where index 0 of an empty
  list reads \<open>undefined\<close>.
\<close>

definition onChange_AppJsx :: "file_obj list \<Rightarrow> app_state \<Rightarrow> app_state" where
  "onChange_AppJsx fl s = s\<lparr>files := FFileList fl\<rparr>"

definition onChange_Part000 :: "file_obj list \<Rightarrow> app_state \<Rightarrow> app_state" where
  "onChange_Part000 fl s = s\<lparr>files := (case fl of [] \<Rightarrow> FUndefined | f # _ \<Rightarrow> FFile f)\<rparr>"

definition onChange_Part001 :: "file_obj list \<Rightarrow> app_state \<Rightarrow> app_state" where
  "onChange_Part001 fl s = s\<lparr>files := (case fl of [] \<Rightarrow> FUndefined | f # _ \<Rightarrow> FFile f)\<rparr>"

fun onChange :: "revision \<Rightarrow> file_obj list \<Rightarrow> app_state \<Rightarrow> app_state" where
  "onChange AppJsx = onChange_AppJsx"
| "onChange Part000 = onChange_Part000"
| "onChange Part001 = onChange_Part001"

section \<open>The upload request\<close>

text \<open>
  \<open>FormData.append(name, value)\<close> stores a \<open>File\<close> as a file entry and any other value
  as the string it converts to.
\<close>

datatype part = FilePart file_obj | StringPart string

fun append_value :: "filesval \<Rightarrow> part" where
  "append_value (FFile f) = FilePart f"
| "append_value FNull = StringPart ''null''"
| "append_value FUndefined = StringPart ''undefined''"
| "append_value (FFileList fs) = StringPart ''[object FileList]''"

record request =
  rq_method :: string
  rq_url :: string
  rq_body :: "(string \<times> part) list"

text \<open>
  \<^verbatim>\<open>src/unnamed/part_001\<close> line 6:
  \<^verbatim>\<open>url = `${import.meta.env.VITE_API_URL}` || `http://localhost:8000`\<close>.

  The right-hand side: the environment value is a string or absent (\<open>None\<close>, read as
  \<open>undefined\<close>); the template literal converts it to a string first, and \<open>||\<close> takes the
  right operand when that string is empty.
\<close>

definition template_literal :: "string option \<Rightarrow> string" where
  "template_literal v = (case v of None \<Rightarrow> ''undefined'' | Some s \<Rightarrow> s)"

definition url_expression :: "string option \<Rightarrow> string" where
  "url_expression env =
     (if template_literal env \<noteq> [] then template_literal env else ''http://localhost:8000'')"

text \<open>
  The bindings the module \<^verbatim>\<open>src/unnamed/part_001\<close> declares: its three imports
  (lines 1, 2 and 4) and the function \<open>App\<close> (line 8). Line 6 has no \<open>const\<close>, \<open>let\<close>
  or \<open>var\<close>.
\<close>

definition module_bindings :: "string list" where
  "module_bindings = [''useState'', ''Spinner'', ''axios'', ''App'']"

text \<open>
  The statement of line 6, run once when the module loads. The file is an ES module
  (\<open>import\<close>, \<open>import.meta\<close>), so its code is strict: the right-hand side is evaluated,
  and storing it under a name that no declaration binds throws a \<open>ReferenceError\<close>.
\<close>

definition url :: "string option \<Rightarrow> string outcome" where
  "url env =
     (let v = url_expression env
      in if ''url'' \<in> set module_bindings then Ok v else Throws (ReferenceError ''url''))"

text \<open>How a request settles: \<open>axios.post\<close> resolves with \<open>res.data\<close> or rejects with an error.\<close>

datatype http_outcome = Resolved jsval | Rejected js_error

datatype log_entry = ConsoleError string js_error

record run =
  final :: app_state
  sent :: "request list"
  console :: "log_entry list"
  escaped :: "js_error option"

subsection \<open>\<open>handleUpload\<close>, \<^verbatim>\<open>src/src/App.jsx\<close> lines 11 to 23\<close>

text \<open>
  The \<open>catch(e)\<close> block evaluates the unbound identifier \<open>err\<close>: a \<open>ReferenceError\<close>
  leaves the handler before \<open>setResponse\<close> is called.
\<close>

definition handleUpload_AppJsx :: "app_state \<Rightarrow> http_outcome \<Rightarrow> run" where
  "handleUpload_AppJsx s out =
     (let formData = [(''resume'', append_value (files s))];
          s1 = s\<lparr>loading := True\<rparr>;
          rq = \<lparr>rq_method = ''POST'', rq_url = ''http://localhost:3000/uploads'',
                rq_body = formData\<rparr>
      in case out of
           Resolved d \<Rightarrow>
             \<lparr>final = s1\<lparr>loading := False, response := d\<rparr>, sent = [rq], console = [],
              escaped = None\<rparr>
         | Rejected e \<Rightarrow>
             \<lparr>final = s1, sent = [rq], console = [],
              escaped = Some (ReferenceError ''err'')\<rparr>)"

subsection \<open>\<open>handleUpload\<close>, \<^verbatim>\<open>src/unnamed/part_000\<close> lines 11 to 23\<close>

definition handleUpload_Part000 :: "app_state \<Rightarrow> http_outcome \<Rightarrow> run" where
  "handleUpload_Part000 s out =
     (let formData = [(''file'', append_value (files s))];
          s1 = s\<lparr>loading := True\<rparr>;
          rq = \<lparr>rq_method = ''POST'', rq_url = ''http://localhost:8000/upload-resume'',
                rq_body = formData\<rparr>
      in case out of
           Resolved d \<Rightarrow>
             \<lparr>final = s1\<lparr>loading := False, response := d\<rparr>, sent = [rq], console = [],
              escaped = None\<rparr>
         | Rejected e \<Rightarrow>
             \<lparr>final = s1\<lparr>response := Exn e\<rparr>, sent = [rq], console = [],
              escaped = None\<rparr>)"

subsection \<open>\<open>handleUpload\<close>, \<^verbatim>\<open>src/unnamed/part_001\<close> lines 13 to 26\<close>

text \<open>
  The handler reads the module-level name \<open>url\<close> (line 18); the string it finds there is
  the first argument.
\<close>

definition handleUpload_Part001 :: "string \<Rightarrow> app_state \<Rightarrow> http_outcome \<Rightarrow> run" where
  "handleUpload_Part001 base s out =
     (let formData = [(''file'', append_value (files s))];
          s1 = s\<lparr>loading := True\<rparr>;
          rq = \<lparr>rq_method = ''POST'', rq_url = base @ ''/grade-resume'',
                rq_body = formData\<rparr>
      in case out of
           Resolved d \<Rightarrow>
             \<lparr>final = s1\<lparr>loading := False, response := d\<rparr>, sent = [rq], console = [],
              escaped = None\<rparr>
         | Rejected e \<Rightarrow>
             \<lparr>final = s1\<lparr>loading := False, response := Null\<rparr>, sent = [rq],
              console = [ConsoleError ''Upload failed:'' e], escaped = None\<rparr>)"

text \<open>
  The dispatcher takes the environment value and hands \<^verbatim>\<open>src/unnamed/part_001\<close> the
  string that the right-hand side of line 6 computes from it.
\<close>

fun handleUpload :: "revision \<Rightarrow> string option \<Rightarrow> app_state \<Rightarrow> http_outcome \<Rightarrow> run" where
  "handleUpload AppJsx env = handleUpload_AppJsx"
| "handleUpload Part000 env = handleUpload_Part000"
| "handleUpload Part001 env = handleUpload_Part001 (url_expression env)"

section \<open>Evaluating the JSX\<close>

text \<open>
  \<open>v.k\<close> for the property names the source reads (data fields and \<open>length\<close>, none of
  them inherited from a prototype): a \<open>TypeError\<close> on \<open>undefined\<close> and \<open>null\<close>, the own
  property of an object, the length of an array or a string, and \<open>undefined\<close> wherever
  the value has no such property.
\<close>

fun get :: "jsval \<Rightarrow> string \<Rightarrow> jsval outcome" where
  "get Undefined k = Throws (TypeError k)"
| "get Null k = Throws (TypeError k)"
| "get (Obj kvs) k = Ok (case map_of kvs k of None \<Rightarrow> Undefined | Some v \<Rightarrow> v)"
| "get (Arr xs) k = Ok (if k = ''length'' then Num (int (length xs)) else Undefined)"
| "get (Str s) k = Ok (if k = ''length'' then Num (int (length s)) else Undefined)"
| "get (Num n) k = Ok Undefined"
| "get (Bool b) k = Ok Undefined"
| "get (Exn e) k =
     (if k \<in> set [''name'', ''message'', ''stack'', ''code'', ''config'', ''request'',
                   ''response'', ''status'']
      then Unmodelled else Ok Undefined)"

text \<open>Optional chaining \<open>v?.k\<close>.\<close>

fun get_opt :: "jsval \<Rightarrow> string \<Rightarrow> jsval outcome" where
  "get_opt Undefined k = Ok Undefined"
| "get_opt Null k = Ok Undefined"
| "get_opt v k = get v k"

text \<open>\<open>v || d\<close>: the left operand when it is truthy, else the right one.\<close>

definition or_else :: "jsval \<Rightarrow> jsval \<Rightarrow> jsval" where
  "or_else v d = (if truthy v then v else d)"

text \<open>\<open>n > 0\<close> after ToNumber: \<open>undefined\<close> is NaN, \<open>null\<close> is 0, \<open>true\<close> is 1.\<close>

fun gt_zero :: "jsval \<Rightarrow> bool outcome" where
  "gt_zero Undefined = Ok False"
| "gt_zero Null = Ok False"
| "gt_zero (Bool b) = Ok b"
| "gt_zero (Num n) = Ok (0 < n)"
| "gt_zero (Str s) = Unmodelled"
| "gt_zero (Arr xs) = Unmodelled"
| "gt_zero (Obj kvs) = Unmodelled"
| "gt_zero (Exn e) = Unmodelled"

text \<open>\<open>v.length > 0\<close>.\<close>

definition length_gt0 :: "jsval \<Rightarrow> bool outcome" where
  "length_gt0 v = bind (get v ''length'') gt_zero"

subsection \<open>Numbers and arrays as strings\<close>

definition digit_char :: "nat \<Rightarrow> char" where
  "digit_char d = ''0123456789'' ! d"

function nat_digits :: "nat \<Rightarrow> string" where
  "nat_digits n = (if n < 10 then [digit_char n] else nat_digits (n div 10) @ [digit_char (n mod 10)])"
  by pat_completeness auto
termination
  by (relation "measure (\<lambda>n. n)") auto

declare nat_digits.simps [simp del]

text \<open>
  Number to string. An integer of magnitude at most \<open>2^53\<close> is held exactly by a
  double and printed in plain decimal digits; beyond that the value \<open>JSON.parse\<close> yields
  is rounded, and from \<open>10^21\<close> on it is printed with an exponent.
\<close>

definition number_to_string :: "int \<Rightarrow> string outcome" where
  "number_to_string n =
     (if n < - 9007199254740992 \<or> 9007199254740992 < n then Unmodelled
      else if n < 0 then Ok (CHR ''-'' # nat_digits (nat (- n)))
      else Ok (nat_digits (nat n)))"

text \<open>
  \<open>xs.join(sep)\<close>: \<open>undefined\<close> and \<open>null\<close> elements give the empty string, a nested
  array is joined with a comma, and an object gives \<open>[object Object]\<close> unless an own
  \<open>toString\<close> property (never callable in parsed JSON) hides the inherited method.
\<close>

fun to_string :: "jsval \<Rightarrow> string outcome"
  and join_elems :: "string \<Rightarrow> jsval list \<Rightarrow> string outcome" where
  "to_string Undefined = Ok ''undefined''"
| "to_string Null = Ok ''null''"
| "to_string (Bool b) = Ok (if b then ''true'' else ''false'')"
| "to_string (Num n) = number_to_string n"
| "to_string (Str s) = Ok s"
| "to_string (Arr xs) = join_elems '','' xs"
| "to_string (Obj kvs) =
     (if map_of kvs ''toString'' = None then Ok ''[object Object]''
      else Throws (TypeError ''toString''))"
| "to_string (Exn e) = Unmodelled"
| "join_elems sep [] = Ok []"
| "join_elems sep (x # xs) =
     (case (if x = Undefined \<or> x = Null then Ok [] else to_string x) of
        Ok a \<Rightarrow>
          (if xs = [] then Ok a
           else (case join_elems sep xs of
                   Ok b \<Rightarrow> Ok (a @ sep @ b)
                 | Throws e \<Rightarrow> Throws e
                 | Unmodelled \<Rightarrow> Unmodelled))
      | Throws e \<Rightarrow> Throws e
      | Unmodelled \<Rightarrow> Unmodelled)"

text \<open>\<open>v.join(sep)\<close>: only an array has the method.\<close>

fun call_join :: "jsval \<Rightarrow> string \<Rightarrow> jsval outcome" where
  "call_join (Arr xs) sep = bind (join_elems sep xs) (\<lambda>s. Ok (Str s))"
| "call_join v sep = Throws (TypeError ''join'')"

section \<open>React elements\<close>

datatype attr = AStr string | ABool bool | ANum nat | AVal jsval | AHandler string

text \<open>
  A child of an element is JSX text, an expression's value (\<open>Val\<close>, turned into text when
  React mounts the tree) or another element.
\<close>

datatype node = Text string | Val jsval | Elem string "(string \<times> attr) list" "node list"

text \<open>
  \<open>v.map((x, i) => ...)\<close>: the callback runs on each element with its index, in order;
  any value but an array has no callable \<open>map\<close>.
\<close>

fun map_from :: "nat \<Rightarrow> (jsval \<Rightarrow> nat \<Rightarrow> node outcome) \<Rightarrow> jsval list \<Rightarrow> node list outcome" where
  "map_from i f [] = Ok []"
| "map_from i f (x # xs) =
     (case f x i of
        Ok a \<Rightarrow>
          (case map_from (Suc i) f xs of
             Ok b \<Rightarrow> Ok (a # b)
           | Throws e \<Rightarrow> Throws e
           | Unmodelled \<Rightarrow> Unmodelled)
      | Throws e \<Rightarrow> Throws e
      | Unmodelled \<Rightarrow> Unmodelled)"

fun call_map :: "jsval \<Rightarrow> (jsval \<Rightarrow> nat \<Rightarrow> node outcome) \<Rightarrow> node list outcome" where
  "call_map (Arr xs) f = map_from 0 f xs"
| "call_map v f = Throws (TypeError ''map'')"

text \<open>\<open>{v && (...)}\<close>: the falsy value itself is the child, else the right operand.\<close>

definition guard :: "jsval \<Rightarrow> node list outcome \<Rightarrow> node list outcome" where
  "guard v body = (if truthy v then body else Ok [Val v])"

text \<open>\<open>{v && v.length > 0 && (...)}\<close>.\<close>

definition guard_nonempty :: "jsval \<Rightarrow> node list outcome \<Rightarrow> node list outcome" where
  "guard_nonempty v body =
     guard v (bind (length_gt0 v) (\<lambda>b. if b then body else Ok [Val (Bool False)]))"

text \<open>\<open>{v && <p>label{v}</p>}\<close> and its variant with a \<open>strong\<close> label.\<close>

definition labelled :: "string \<Rightarrow> jsval \<Rightarrow> node list outcome" where
  "labelled label v = guard v (Ok [Elem ''p'' [] [Text label, Val v]])"

subsection \<open>The controls every revision renders\<close>

definition heading :: node where
  "heading = Elem ''div'' [(''className'', AStr ''App'')]
     [Elem ''h1'' [] [Text ''Automated Resume Grader'']]"

definition picker :: node where
  "picker = Elem ''div'' []
     [Elem ''input'' [(''type'', AStr ''file''), (''accept'', AStr ''.pdf''),
        (''onChange'', AHandler ''onChange''), (''placeholder'', AStr ''choose your Resume'')] []]"

text \<open>\<open>{loading && <Spinner/>}\<close>; the component \<open>Spinner\<close> is an opaque element.\<close>

definition spinner :: "app_state \<Rightarrow> node list" where
  "spinner s = (if loading s then [Elem ''Spinner'' [] []] else [Val (Bool False)])"

text \<open>
  The submit button. \<^verbatim>\<open>src/src/App.jsx\<close> and \<^verbatim>\<open>src/unnamed/part_000\<close> line 34:
  \<^verbatim>\<open><button onClick={handleUpload} >Upload</button>\<close>;
  \<^verbatim>\<open>src/unnamed/part_001\<close> line 42:
  \<^verbatim>\<open><button onClick={handleUpload} disabled={!files || loading}>\<close>.
\<close>

definition button_AppJsx :: "app_state \<Rightarrow> node" where
  "button_AppJsx s = Elem ''button'' [(''onClick'', AHandler ''handleUpload'')] [Text ''Upload'']"

definition button_Part000 :: "app_state \<Rightarrow> node" where
  "button_Part000 s = Elem ''button'' [(''onClick'', AHandler ''handleUpload'')] [Text ''Upload'']"

definition button_Part001 :: "app_state \<Rightarrow> node" where
  "button_Part001 s =
     Elem ''button'' [(''onClick'', AHandler ''handleUpload''),
        (''disabled'', ABool (\<not> files_truthy (files s) \<or> loading s))] [Text ''Upload'']"

fun button :: "revision \<Rightarrow> app_state \<Rightarrow> node" where
  "button AppJsx = button_AppJsx"
| "button Part000 = button_Part000"
| "button Part001 = button_Part001"

text \<open>A control is disabled when its \<open>disabled\<close> attribute is present and true.\<close>

fun is_disabled :: "node \<Rightarrow> bool" where
  "is_disabled (Elem tag attrs cs) =
     (case map_of attrs ''disabled'' of Some (ABool b) \<Rightarrow> b | _ \<Rightarrow> False)"
| "is_disabled n = False"

definition submit_disabled :: "revision \<Rightarrow> app_state \<Rightarrow> bool" where
  "submit_disabled r s = is_disabled (button r s)"

section \<open>The result panel\<close>

text \<open>
  \<open>li\<close> is the callback \<^verbatim>\<open>(x, i) => <li key={i}>{x}</li>\<close> that the lists of tips,
  skills, strengths and achievements share.
\<close>

definition li :: "jsval \<Rightarrow> nat \<Rightarrow> node outcome" where
  "li x i = Ok (Elem ''li'' [(''key'', ANum i)] [Val x])"

subsection \<open>\<^verbatim>\<open>src/src/App.jsx\<close> lines 39 to 46\<close>

definition panel_AppJsx :: "jsval \<Rightarrow> node list outcome" where
  "panel_AppJsx r =
     guard r
       (bind (get r ''score'') (\<lambda>score.
        bind (get r ''tips'') (\<lambda>tips.
        bind (call_map tips li) (\<lambda>items.
        Ok [Elem ''div'' []
              [Elem ''h2'' [] [Text ''Score: '', Val score, Text ''/100''],
               Elem ''ul'' [] items]]))))"

subsection \<open>\<^verbatim>\<open>src/unnamed/part_000\<close> lines 39 to 46\<close>

definition panel_Part000 :: "jsval \<Rightarrow> node list outcome" where
  "panel_Part000 r =
     guard r
       (bind (get r ''parsed_data'') (\<lambda>pd.
        bind (get pd ''personal_info'') (\<lambda>info.
        bind (get info ''name'') (\<lambda>name.
        Ok [Elem ''div'' [] [Elem ''ul'' [] [Val name]]]))))"

subsection \<open>\<^verbatim>\<open>src/unnamed/part_001\<close> lines 50 to 191\<close>

text \<open>
  Inside a guard, the source reads again the path the guard has just tested; the
  embedding uses the value the guard read.

  Lines 56 to 64: \<^verbatim>\<open>response.grading_result.section_scores?.k || 'N/A'\<close>.
\<close>

definition section_score :: "jsval \<Rightarrow> string \<Rightarrow> jsval outcome" where
  "section_score g k =
     bind (get g ''section_scores'') (\<lambda>ss.
     bind (get_opt ss k) (\<lambda>v.
     Ok (or_else v (Str ''N/A''))))"

definition score_header :: "jsval \<Rightarrow> node outcome" where
  "score_header g =
     bind (get g ''overall_score'') (\<lambda>overall.
     bind (section_score g ''personal_info'') (\<lambda>s1.
     bind (section_score g ''experience'') (\<lambda>s2.
     bind (section_score g ''education'') (\<lambda>s3.
     bind (section_score g ''skills'') (\<lambda>s4.
     bind (section_score g ''projects'') (\<lambda>s5.
     Ok (Elem ''h2'' []
          [Text ''Your Overall Score is'', Text '' '', Val overall,
           Text '' out of 100 and your section scores are: personal info'', Text '' '',
           Val s1, Text '' '', Text '', experience'', Text '' '',
           Val s2, Text '' '', Text '', education'', Text '' '',
           Val s3, Text '' '', Text '', skills'', Text '' '',
           Val s4, Text '', projects'', Text '' '',
           Val s5])))))))"

text \<open>\<open>response.parsed_data?.k\<close>.\<close>

definition parsed :: "jsval \<Rightarrow> string \<Rightarrow> jsval outcome" where
  "parsed r k = bind (get r ''parsed_data'') (\<lambda>pd. get_opt pd k)"

definition personal_info_section :: "jsval \<Rightarrow> node list outcome" where
  "personal_info_section r =
     bind (parsed r ''personal_info'') (\<lambda>info.
     guard info
       (bind (get info ''name'') (\<lambda>name.
        bind (get info ''email'') (\<lambda>email.
        bind (get info ''phone'') (\<lambda>phone.
        bind (get info ''address'') (\<lambda>address.
        bind (labelled ''Address: '' address) (\<lambda>n1.
        bind (get info ''linkedin'') (\<lambda>linkedin.
        bind (labelled ''LinkedIn: '' linkedin) (\<lambda>n2.
        bind (get info ''github'') (\<lambda>github.
        bind (labelled ''GitHub: '' github) (\<lambda>n3.
        Ok [Elem ''div'' []
              ([Elem ''h3'' [] [Text ''Personal Information''],
                Elem ''p'' [] [Text ''Name: '', Val name],
                Elem ''p'' [] [Text ''Email: '', Val email],
                Elem ''p'' [] [Text ''Phone: '', Val phone]] @ n1 @ n2 @ n3)])))))))))))"

definition education_item :: "jsval \<Rightarrow> nat \<Rightarrow> node outcome" where
  "education_item edu index =
     bind (get edu ''institution'') (\<lambda>institution.
     bind (get edu ''degree'') (\<lambda>degree.
     bind (get edu ''field_of_study'') (\<lambda>field.
     bind (get edu ''year'') (\<lambda>year.
     bind (get edu ''gpa'') (\<lambda>gpa.
     bind (labelled ''GPA: '' gpa) (\<lambda>n1.
     Ok (Elem ''div'' [(''key'', ANum index)]
          ([Elem ''h4'' [] [Val institution],
            Elem ''p'' [] [Val degree, Text '' in '', Val field],
            Elem ''p'' [] [Val year]] @ n1))))))))"

definition education_section :: "jsval \<Rightarrow> node list outcome" where
  "education_section r =
     bind (parsed r ''education'') (\<lambda>education.
     guard_nonempty education
       (bind (call_map education education_item) (\<lambda>items.
        Ok [Elem ''div'' [] (Elem ''h3'' [] [Text ''Education''] # items)])))"

definition experience_item :: "jsval \<Rightarrow> nat \<Rightarrow> node outcome" where
  "experience_item exp index =
     bind (get exp ''position'') (\<lambda>position.
     bind (get exp ''company'') (\<lambda>company.
     bind (get exp ''duration'') (\<lambda>duration.
     bind (get exp ''description'') (\<lambda>description.
     bind (get exp ''key_achievements'') (\<lambda>achievements.
     bind (guard_nonempty achievements
             (bind (call_map achievements li) (\<lambda>items.
              Ok [Elem ''div'' []
                    [Elem ''strong'' [] [Text ''Key Achievements:''],
                     Elem ''ul'' [] items]]))) (\<lambda>n1.
     Ok (Elem ''div'' [(''key'', ANum index)]
          ([Elem ''h4'' [] [Val position, Text '' at '', Val company],
            Elem ''p'' [] [Val duration],
            Elem ''p'' [] [Val description]] @ n1))))))))"

definition experience_section :: "jsval \<Rightarrow> node list outcome" where
  "experience_section r =
     bind (parsed r ''experience'') (\<lambda>experience.
     guard_nonempty experience
       (bind (call_map experience experience_item) (\<lambda>items.
        Ok [Elem ''div'' [] (Elem ''h3'' [] [Text ''Experience''] # items)])))"

definition skills_section :: "jsval \<Rightarrow> node list outcome" where
  "skills_section r =
     bind (parsed r ''skills'') (\<lambda>skills.
     guard_nonempty skills
       (bind (call_map skills li) (\<lambda>items.
        Ok [Elem ''div'' [] [Elem ''h3'' [] [Text ''Skills''], Elem ''ul'' [] items]])))"

definition project_item :: "jsval \<Rightarrow> nat \<Rightarrow> node outcome" where
  "project_item proj index =
     bind (get proj ''name'') (\<lambda>name.
     bind (get proj ''description'') (\<lambda>description.
     bind (get proj ''technologies'') (\<lambda>technologies.
     bind (guard_nonempty technologies
             (bind (call_join technologies '', '') (\<lambda>joined.
              Ok [Elem ''p'' []
                    [Elem ''strong'' [] [Text ''Technologies:''], Text '' '', Val joined]])))
       (\<lambda>n1.
     bind (get proj ''duration'') (\<lambda>duration.
     bind (guard duration
             (Ok [Elem ''p'' []
                    [Elem ''strong'' [] [Text ''Duration:''], Text '' '', Val duration]]))
       (\<lambda>n2.
     bind (get proj ''url'') (\<lambda>link.
     bind (guard link
             (Ok [Elem ''a'' [(''href'', AVal link), (''target'', AStr ''_blank''),
                     (''rel'', AStr ''noopener noreferrer'')] [Text ''Project Link'']]))
       (\<lambda>n3.
     Ok (Elem ''div'' [(''key'', ANum index)]
          ([Elem ''h4'' [] [Val name], Elem ''p'' [] [Val description]]
           @ n1 @ n2 @ n3))))))))))"

definition projects_section :: "jsval \<Rightarrow> node list outcome" where
  "projects_section r =
     bind (parsed r ''projects'') (\<lambda>projects.
     guard_nonempty projects
       (bind (call_map projects project_item) (\<lambda>items.
        Ok [Elem ''div'' [] (Elem ''h3'' [] [Text ''Projects''] # items)])))"

text \<open>Strengths and tips: a titled list of \<open>response.grading_result.k\<close>.\<close>

definition titled_list :: "jsval \<Rightarrow> string \<Rightarrow> string \<Rightarrow> node list outcome" where
  "titled_list g k title =
     bind (get g k) (\<lambda>xs.
     guard_nonempty xs
       (bind (call_map xs li) (\<lambda>items.
        Ok [Elem ''div'' [] [Elem ''h3'' [] [Text title], Elem ''ul'' [] items]])))"

definition feedback_section :: "jsval \<Rightarrow> node list outcome" where
  "feedback_section g =
     bind (get g ''detailed_feedback'') (\<lambda>feedback.
     guard feedback
       (Ok [Elem ''div'' []
              [Elem ''h3'' [] [Text ''Detailed Feedback''], Elem ''p'' [] [Val feedback]]]))"

definition panel_Part001 :: "jsval \<Rightarrow> node list outcome" where
  "panel_Part001 r =
     guard r
       (bind (get r ''grading_result'') (\<lambda>g.
        guard g
          (bind (score_header g) (\<lambda>header.
           bind (personal_info_section r) (\<lambda>n1.
           bind (education_section r) (\<lambda>n2.
           bind (experience_section r) (\<lambda>n3.
           bind (skills_section r) (\<lambda>n4.
           bind (projects_section r) (\<lambda>n5.
           bind (titled_list g ''strengths'' ''Strengths'') (\<lambda>n6.
           bind (titled_list g ''tips'' ''Resume Improvement Tips'') (\<lambda>n7.
           bind (feedback_section g) (\<lambda>n8.
           Ok [Elem ''div'' []
                 ([header, Elem ''br'' [] []]
                  @ n1 @ n2 @ n3 @ n4 @ n5 @ n6 @ n7 @ n8)]))))))))))))"

fun panel :: "revision \<Rightarrow> jsval \<Rightarrow> node list outcome" where
  "panel AppJsx = panel_AppJsx"
| "panel Part000 = panel_Part000"
| "panel Part001 = panel_Part001"

section \<open>The component\<close>

text \<open>
  The fragment \<open>App\<close> returns: the heading, the file picker, the submit button, the
  loading indicator and the container of the result panel.
\<close>

definition App :: "revision \<Rightarrow> app_state \<Rightarrow> node list outcome" where
  "App r s =
     bind (panel r (response s)) (\<lambda>result.
     Ok ([heading, picker, Elem ''div'' [] [button r s]] @ spinner s
         @ [Elem ''div'' [] result]))"

subsection \<open>Mounting\<close>

text \<open>
  React turns an expression's value into output when it mounts the tree: a number or a
  non-empty string becomes text, \<open>undefined\<close>, \<open>null\<close>, booleans and the empty string
  produce nothing, an array contributes its elements, and an object is refused with an
  error.
\<close>

fun child_nodes :: "jsval \<Rightarrow> node list outcome"
  and children_nodes :: "jsval list \<Rightarrow> node list outcome" where
  "child_nodes Undefined = Ok []"
| "child_nodes Null = Ok []"
| "child_nodes (Bool b) = Ok []"
| "child_nodes (Num n) =
     (case number_to_string n of
        Ok t \<Rightarrow> Ok [Text t]
      | Throws e \<Rightarrow> Throws e
      | Unmodelled \<Rightarrow> Unmodelled)"
| "child_nodes (Str s) = Ok (if s = [] then [] else [Text s])"
| "child_nodes (Arr xs) = children_nodes xs"
| "child_nodes (Obj kvs) = Throws ReactChildError"
| "child_nodes (Exn e) = Throws ReactChildError"
| "children_nodes [] = Ok []"
| "children_nodes (x # xs) =
     (case child_nodes x of
        Ok a \<Rightarrow>
          (case children_nodes xs of
             Ok b \<Rightarrow> Ok (a @ b)
           | Throws e \<Rightarrow> Throws e
           | Unmodelled \<Rightarrow> Unmodelled)
      | Throws e \<Rightarrow> Throws e
      | Unmodelled \<Rightarrow> Unmodelled)"

fun mount :: "node \<Rightarrow> node list outcome"
  and mount_all :: "node list \<Rightarrow> node list outcome" where
  "mount (Text s) = Ok [Text s]"
| "mount (Val v) = child_nodes v"
| "mount (Elem tag attrs cs) =
     (case mount_all cs of
        Ok ds \<Rightarrow> Ok [Elem tag attrs ds]
      | Throws e \<Rightarrow> Throws e
      | Unmodelled \<Rightarrow> Unmodelled)"
| "mount_all [] = Ok []"
| "mount_all (c # cs) =
     (case mount c of
        Ok a \<Rightarrow>
          (case mount_all cs of
             Ok b \<Rightarrow> Ok (a @ b)
           | Throws e \<Rightarrow> Throws e
           | Unmodelled \<Rightarrow> Unmodelled)
      | Throws e \<Rightarrow> Throws e
      | Unmodelled \<Rightarrow> Unmodelled)"

text \<open>Rendering: evaluate the component, then mount what it returned.\<close>

definition render :: "revision \<Rightarrow> app_state \<Rightarrow> node list outcome" where
  "render r s = bind (App r s) mount_all"

text \<open>The text leaves of a mounted tree, in document order, and the tags it uses.\<close>

fun texts :: "node \<Rightarrow> string list"
  and texts_all :: "node list \<Rightarrow> string list" where
  "texts (Text s) = [s]"
| "texts (Val v) = []"
| "texts (Elem tag attrs cs) = texts_all cs"
| "texts_all [] = []"
| "texts_all (c # cs) = texts c @ texts_all cs"

text \<open>The children of the last element of the fragment: the result container.\<close>

fun result_container :: "node list \<Rightarrow> node list" where
  "result_container [] = []"
| "result_container [Elem tag attrs cs] = cs"
| "result_container [n] = []"
| "result_container (n # ns) = result_container ns"

text \<open>The file entries of a multipart body, with their field names.\<close>

definition file_parts :: "(string \<times> part) list \<Rightarrow> (string \<times> file_obj) list" where
  "file_parts body =
     concat (map (\<lambda>(k, p). case p of FilePart f \<Rightarrow> [(k, f)] | StringPart t \<Rightarrow> []) body)"

section \<open>Properties of \<open>handleUpload\<close>\<close>

lemmas handleUpload_defs =
  handleUpload_AppJsx_def handleUpload_Part000_def handleUpload_Part001_def

lemmas onChange_defs = onChange_AppJsx_def onChange_Part000_def onChange_Part001_def

text \<open>
  Claim C3. When the request resolves with body \<open>B\<close>, every revision ends with
  \<open>response\<close> equal to \<open>B\<close> itself and \<open>loading\<close> false; the selected file is kept
  and no exception escapes.
\<close>

theorem handleUpload_success:
  "final (handleUpload r env s (Resolved B)) = s\<lparr>loading := False, response := B\<rparr> \<and>
   response (final (handleUpload r env s (Resolved B))) = B \<and>
   loading (final (handleUpload r env s (Resolved B))) = False \<and>
   escaped (handleUpload r env s (Resolved B)) = None"
  by (cases r) (simp_all add: handleUpload_defs)

theorem handleUpload_success_witness:
  "response (final (handleUpload Part000 None initial
      (Resolved (Obj [(''grading_result'', Obj [(''overall_score'', Num 72)])]))))
     = Obj [(''grading_result'', Obj [(''overall_score'', Num 72)])] \<and>
   loading (final (handleUpload Part000 None initial
      (Resolved (Obj [(''grading_result'', Obj [(''overall_score'', Num 72)])])))) = False"
  using handleUpload_success [of Part000 None initial
      "Obj [(''grading_result'', Obj [(''overall_score'', Num 72)])]"]
  by simp

text \<open>
  The failure path of \<^verbatim>\<open>src/unnamed/part_001\<close>: \<open>loading\<close> is reset, \<open>response\<close> is
  cleared, the error is logged once and nothing escapes.
\<close>

lemma handleUpload_failure_Part001:
  "final (handleUpload Part001 env s (Rejected e)) = s\<lparr>loading := False, response := Null\<rparr> \<and>
   console (handleUpload Part001 env s (Rejected e)) = [ConsoleError ''Upload failed:'' e] \<and>
   escaped (handleUpload Part001 env s (Rejected e)) = None"
  by (simp add: handleUpload_Part001_def)

text \<open>
  Claim C2, at the inputs where the code departs from it. When the request is rejected,
  \<^verbatim>\<open>src/unnamed/part_000\<close> returns with \<open>loading\<close> still true (its \<open>catch\<close> block has no
  \<open>setLoading(false)\<close>), and \<^verbatim>\<open>src/src/App.jsx\<close> does the same and lets a
  \<open>ReferenceError\<close> escape (its \<open>catch(e)\<close> block reads the unbound \<open>err\<close>).
\<close>

theorem handleUpload_failure_keeps_loading:
  "loading (final (handleUpload Part000 env s (Rejected e))) = True \<and>
   escaped (handleUpload Part000 env s (Rejected e)) = None \<and>
   loading (final (handleUpload AppJsx env s (Rejected e))) = True \<and>
   escaped (handleUpload AppJsx env s (Rejected e)) = Some (ReferenceError ''err'')"
  by (simp add: handleUpload_defs)

text \<open>
  Claim C4, as amended. When the request is rejected with error \<open>e\<close>,
  \<^verbatim>\<open>src/unnamed/part_001\<close> clears \<open>response\<close> to \<open>null\<close>, writes \<open>e\<close> once to the
  console and lets nothing escape; \<^verbatim>\<open>src/unnamed/part_000\<close> stores the error object
  \<open>e\<close> itself in \<open>response\<close>, logs nothing and lets nothing escape.
\<close>

theorem failure_response:
  "response (final (handleUpload Part001 env s (Rejected e))) = Null \<and>
   console (handleUpload Part001 env s (Rejected e)) = [ConsoleError ''Upload failed:'' e] \<and>
   escaped (handleUpload Part001 env s (Rejected e)) = None \<and>
   response (final (handleUpload Part000 env s (Rejected e))) = Exn e \<and>
   console (handleUpload Part000 env s (Rejected e)) = [] \<and>
   escaped (handleUpload Part000 env s (Rejected e)) = None"
  by (simp add: handleUpload_defs)

theorem failure_response_witness:
  "response (final (handleUpload Part001 None initial (Rejected (AxiosError ''ERR_BAD_RESPONSE''))))
     = Null \<and>
   console (handleUpload Part001 None initial (Rejected (AxiosError ''ERR_BAD_RESPONSE'')))
     = [ConsoleError ''Upload failed:'' (AxiosError ''ERR_BAD_RESPONSE'')] \<and>
   response (final (handleUpload Part000 None initial (Rejected (AxiosError ''ERR_BAD_RESPONSE''))))
     = Exn (AxiosError ''ERR_BAD_RESPONSE'')"
  using failure_response [of None initial "AxiosError ''ERR_BAD_RESPONSE''"]
  by simp

text \<open>
  Claim C4 as stated fails in \<^verbatim>\<open>src/unnamed/part_000\<close>: after a network error on the
  initial state, \<open>response\<close> is neither its previous value nor \<open>null\<close>.
\<close>

theorem failure_response_counterexample:
  "response (final (handleUpload Part000 None initial (Rejected (AxiosError ''ERR_NETWORK''))))
     \<noteq> response initial \<and>
   response (final (handleUpload Part000 None initial (Rejected (AxiosError ''ERR_NETWORK''))))
     \<noteq> Null"
  by (simp add: handleUpload_defs initial_def)

text \<open>
  In the two revisions that store \<open>e.target.files[0]\<close>, a submit after a file was picked
  sends one POST whose body is the single file entry \<open>file\<close>.
\<close>

lemma handleUpload_sends_file:
  "r \<noteq> AppJsx \<Longrightarrow>
   map rq_method (sent (handleUpload r env (onChange r (f # fs) s) out)) = [''POST''] \<and>
   map rq_body (sent (handleUpload r env (onChange r (f # fs) s) out)) = [[(''file'', FilePart f)]]"
  by (cases r; cases out) (simp_all add: handleUpload_defs onChange_defs)

text \<open>
  Claim C6, at the input where the code departs from it. In \<^verbatim>\<open>src/src/App.jsx\<close>, a
  submit after the file \<open>f\<close> was picked sends one POST, and its multipart body has no
  file entry at all.
\<close>

theorem handleUpload_AppJsx_no_file_part:
  "map rq_method (sent (handleUpload AppJsx env (onChange AppJsx [f] s) out)) = [''POST''] \<and>
   map (\<lambda>rq. file_parts (rq_body rq))
     (sent (handleUpload AppJsx env (onChange AppJsx [f] s) out)) = [[]]"
  by (cases out) (simp_all add: handleUpload_defs onChange_defs file_parts_def)

text \<open>
  Claim C9. In \<^verbatim>\<open>src/src/App.jsx\<close> the picker's handler stores the whole \<open>FileList\<close>,
  and the body of the request then holds, under the field \<open>resume\<close>, the string a
  \<open>FileList\<close> converts to instead of a file.
\<close>

theorem AppJsx_appends_FileList:
  "files (onChange AppJsx fl s) = FFileList fl \<and>
   map rq_body (sent (handleUpload AppJsx env (onChange AppJsx fl s) out))
     = [[(''resume'', StringPart ''[object FileList]'')]]"
  by (cases out) (simp_all add: handleUpload_defs onChange_defs)

theorem AppJsx_appends_FileList_witness:
  "files (onChange AppJsx [File ''cv.pdf'' ''%PDF''] initial) = FFileList [File ''cv.pdf'' ''%PDF''] \<and>
   map rq_body (sent (handleUpload AppJsx None (onChange AppJsx [File ''cv.pdf'' ''%PDF''] initial)
       (Resolved Null)))
     = [[(''resume'', StringPart ''[object FileList]'')]]"
  using AppJsx_appends_FileList [of "[File ''cv.pdf'' ''%PDF'']" initial None "Resolved Null"]
  by simp

section \<open>The base URL\<close>

text \<open>
  The right-hand side of line 6 on its own: a value that is set is taken unless it is the
  empty string, and an absent value gives the string \<open>undefined\<close>, not the local default.
\<close>

lemma url_expression_values:
  "url_expression (Some v) = (if v = [] then ''http://localhost:8000'' else v)"
  "url_expression None = ''undefined''"
  by (simp_all add: url_expression_def template_literal_def)

text \<open>
  Claim C8, at the inputs where the code departs from it. For every environment value,
  absent or set, the statement of line 6 throws a \<open>ReferenceError\<close> when the module
  loads: no base URL is bound, neither the configured one nor the local default.
\<close>

theorem url_assignment_throws:
  "url env = Throws (ReferenceError ''url'') \<and>
   url None \<noteq> Ok ''http://localhost:8000'' \<and>
   url (Some ''https://grader.example'') \<noteq> Ok ''https://grader.example''"
  by (simp add: url_def module_bindings_def)

section \<open>The submit control\<close>

text \<open>
  Claim C1, as amended. In \<^verbatim>\<open>src/unnamed/part_001\<close> the submit button is disabled
  exactly when no file is held (\<open>files\<close> is \<open>null\<close> or \<open>undefined\<close>) or \<open>loading\<close> is
  true; in \<^verbatim>\<open>src/src/App.jsx\<close> and \<^verbatim>\<open>src/unnamed/part_000\<close> the button has no
  \<open>disabled\<close> attribute and is never disabled.
\<close>

theorem submit_control_disabled:
  "submit_disabled Part001 s = (\<not> files_truthy (files s) \<or> loading s) \<and>
   \<not> submit_disabled AppJsx s \<and> \<not> submit_disabled Part000 s"
  by (simp add: submit_disabled_def button_AppJsx_def button_Part000_def button_Part001_def)

theorem submit_control_disabled_witness:
  "submit_disabled Part001 initial \<and>
   submit_disabled Part001
     \<lparr>files = FFile (File ''cv.pdf'' ''%PDF''), response = Null, loading = True\<rparr> \<and>
   \<not> submit_disabled Part001
     \<lparr>files = FFile (File ''cv.pdf'' ''%PDF''), response = Null, loading = False\<rparr>"
  using submit_control_disabled [of initial]
    submit_control_disabled
      [of "\<lparr>files = FFile (File ''cv.pdf'' ''%PDF''), response = Null, loading = True\<rparr>"]
    submit_control_disabled
      [of "\<lparr>files = FFile (File ''cv.pdf'' ''%PDF''), response = Null, loading = False\<rparr>"]
  by (simp add: initial_def)

text \<open>
  Claim C1 as stated fails in \<^verbatim>\<open>src/src/App.jsx\<close>: in the initial state no file is
  selected and the submit button is not disabled.
\<close>

theorem submit_control_counterexample:
  "files initial = FNull \<and> \<not> submit_disabled AppJsx initial"
  by (simp add: initial_def submit_disabled_def button_AppJsx_def)

section \<open>Rendering\<close>

lemma number_to_string_72: "number_to_string 72 = Ok ''72''"
  by (simp add: number_to_string_def nat_digits.simps [of 72] nat_digits.simps [of 7]
      digit_char_def)

text \<open>Mounting the controls leaves them as they are and drops the idle loading slot.\<close>

lemma mount_controls:
  "mount_all ([heading, picker, Elem ''div'' [] [button r s]] @ spinner s @ [Elem ''div'' [] cs]) =
     bind (mount_all cs) (\<lambda>ds.
       Ok ([heading, picker, Elem ''div'' [] [button r s]]
           @ (if loading s then [Elem ''Spinner'' [] []] else []) @ [Elem ''div'' [] ds]))"
  by (cases r; cases "mount_all cs")
    (simp_all add: heading_def picker_def spinner_def bind_def button_AppJsx_def
      button_Part000_def button_Part001_def)

lemma button_response [simp]: "button r (s\<lparr>response := v\<rparr>) = button r s"
  by (cases r) (simp_all add: button_AppJsx_def button_Part000_def button_Part001_def)

lemma spinner_response [simp]: "spinner (s\<lparr>response := v\<rparr>) = spinner s"
  by (simp add: spinner_def)

lemma panel_Null: "panel r Null = Ok [Val Null]"
  by (cases r) (simp_all add: panel_AppJsx_def panel_Part000_def panel_Part001_def guard_def)

lemmas panel_Part001_defs =
  panel_Part001_def guard_def bind_def score_header_def section_score_def or_else_def
  personal_info_section_def parsed_def education_section_def experience_section_def
  skills_section_def projects_section_def titled_list_def feedback_section_def
  guard_nonempty_def

text \<open>
  Claim C7. With \<open>response\<close> equal to \<open>null\<close>, every revision renders the heading, the
  file picker and the submit button, the loading indicator while \<open>loading\<close> is true, and
  an empty result container: nothing of the result panel.
\<close>

theorem render_null_response:
  "render r (s\<lparr>response := Null\<rparr>) =
     Ok ([heading, picker, Elem ''div'' [] [button r s]]
         @ (if loading s then [Elem ''Spinner'' [] []] else [])
         @ [Elem ''div'' [] []]) \<and>
   result_container
     ([heading, picker, Elem ''div'' [] [button r s]]
      @ (if loading s then [Elem ''Spinner'' [] []] else [])
      @ [Elem ''div'' [] []]) = []"
proof
  show "render r (s\<lparr>response := Null\<rparr>) =
     Ok ([heading, picker, Elem ''div'' [] [button r s]]
         @ (if loading s then [Elem ''Spinner'' [] []] else [])
         @ [Elem ''div'' [] []])"
    by (simp add: render_def App_def panel_Null bind_def mount_controls
        del: append.simps button.simps)
  show "result_container
     ([heading, picker, Elem ''div'' [] [button r s]]
      @ (if loading s then [Elem ''Spinner'' [] []] else [])
      @ [Elem ''div'' [] []]) = []"
    by (simp add: heading_def picker_def)
qed

theorem render_null_response_witness:
  "render AppJsx (initial\<lparr>response := Null\<rparr>) =
     Ok [Elem ''div'' [(''className'', AStr ''App'')]
           [Elem ''h1'' [] [Text ''Automated Resume Grader'']],
         Elem ''div'' []
           [Elem ''input'' [(''type'', AStr ''file''), (''accept'', AStr ''.pdf''),
              (''onChange'', AHandler ''onChange''),
              (''placeholder'', AStr ''choose your Resume'')] []],
         Elem ''div'' []
           [Elem ''button'' [(''onClick'', AHandler ''handleUpload'')] [Text ''Upload'']],
         Elem ''div'' [] []]"
  using render_null_response [of AppJsx initial]
  by (simp add: initial_def heading_def picker_def button_AppJsx_def)

text \<open>
  The result panel of \<^verbatim>\<open>src/unnamed/part_001\<close> for the response
  \<^verbatim>\<open>{grading_result: {overall_score: 72}}\<close>, before mounting.
\<close>

lemma panel_Part001_score_only:
  "panel_Part001 (Obj [(''grading_result'', Obj [(''overall_score'', Num 72)])]) =
     Ok [Elem ''div'' []
          [Elem ''h2'' []
            [Text ''Your Overall Score is'', Text '' '', Val (Num 72),
             Text '' out of 100 and your section scores are: personal info'', Text '' '',
             Val (Str ''N/A''), Text '' '', Text '', experience'', Text '' '',
             Val (Str ''N/A''), Text '' '', Text '', education'', Text '' '',
             Val (Str ''N/A''), Text '' '', Text '', skills'', Text '' '',
             Val (Str ''N/A''), Text '', projects'', Text '' '',
             Val (Str ''N/A'')],
           Elem ''br'' [] [],
           Val Undefined, Val Undefined, Val Undefined, Val Undefined, Val Undefined,
           Val Undefined, Val Undefined, Val Undefined]]"
  by (simp add: panel_Part001_defs)

lemma render_Part001_score_only:
  "render Part001 (s\<lparr>response := Obj [(''grading_result'', Obj [(''overall_score'', Num 72)])]\<rparr>) =
     Ok ([heading, picker, Elem ''div'' [] [button Part001 s]]
         @ (if loading s then [Elem ''Spinner'' [] []] else [])
         @ [Elem ''div'' []
             [Elem ''div'' []
               [Elem ''h2'' []
                 [Text ''Your Overall Score is'', Text '' '', Text ''72'',
                  Text '' out of 100 and your section scores are: personal info'', Text '' '',
                  Text ''N/A'', Text '' '', Text '', experience'', Text '' '',
                  Text ''N/A'', Text '' '', Text '', education'', Text '' '',
                  Text ''N/A'', Text '' '', Text '', skills'', Text '' '',
                  Text ''N/A'', Text '', projects'', Text '' '',
                  Text ''N/A''],
                Elem ''br'' [] []]]])"
  using panel_Part001_score_only
  by (simp add: render_def App_def bind_def mount_controls number_to_string_72
      del: append.simps button.simps)

text \<open>
  Claim C5, as amended. In \<^verbatim>\<open>src/unnamed/part_001\<close>, rendering with the response
  \<^verbatim>\<open>{grading_result: {overall_score: 72}}\<close> does not throw; the result container holds
  the score line with the text \<open>72\<close> and a line break and nothing else, so none of the
  sections headed \<open>Skills\<close>, \<open>Projects\<close> or \<open>Experience\<close> is rendered.
\<close>

theorem render_score_only:
  "\<exists>ns. render Part001 (s\<lparr>response := Obj [(''grading_result'', Obj [(''overall_score'', Num 72)])]\<rparr>)
          = Ok ns \<and>
        result_container ns =
          [Elem ''div'' []
            [Elem ''h2'' []
              [Text ''Your Overall Score is'', Text '' '', Text ''72'',
               Text '' out of 100 and your section scores are: personal info'', Text '' '',
               Text ''N/A'', Text '' '', Text '', experience'', Text '' '',
               Text ''N/A'', Text '' '', Text '', education'', Text '' '',
               Text ''N/A'', Text '' '', Text '', skills'', Text '' '',
               Text ''N/A'', Text '', projects'', Text '' '',
               Text ''N/A''],
             Elem ''br'' [] []]] \<and>
        ''72'' \<in> set (texts_all ns) \<and>
        ''Skills'' \<notin> set (texts_all ns) \<and>
        ''Projects'' \<notin> set (texts_all ns) \<and>
        ''Experience'' \<notin> set (texts_all ns)"
  unfolding render_Part001_score_only
  by (cases "loading s") (simp_all add: heading_def picker_def button_Part001_def)

theorem render_score_only_witness:
  "\<exists>ns. render Part001 (initial\<lparr>response := Obj [(''grading_result'', Obj [(''overall_score'', Num 72)])]\<rparr>)
          = Ok ns \<and>
        ''72'' \<in> set (texts_all ns) \<and>
        ''Skills'' \<notin> set (texts_all ns) \<and>
        ''Projects'' \<notin> set (texts_all ns) \<and>
        ''Experience'' \<notin> set (texts_all ns)"
  using render_score_only [of initial]
  by blast

text \<open>
  Claim C5 as stated fails in the two other revisions: on this response
  \<^verbatim>\<open>src/src/App.jsx\<close> throws at \<open>response.tips.map\<close> and \<^verbatim>\<open>src/unnamed/part_000\<close>
  at \<open>response.parsed_data.personal_info\<close>.
\<close>

theorem render_score_only_counterexample:
  "render AppJsx (initial\<lparr>response := Obj [(''grading_result'', Obj [(''overall_score'', Num 72)])]\<rparr>)
     = Throws (TypeError ''map'') \<and>
   render Part000 (initial\<lparr>response := Obj [(''grading_result'', Obj [(''overall_score'', Num 72)])]\<rparr>)
     = Throws (TypeError ''personal_info'')"
  by (simp add: render_def App_def bind_def panel_AppJsx_def panel_Part000_def guard_def)

text \<open>
  After a rejected request, \<^verbatim>\<open>src/unnamed/part_000\<close> holds the error object in
  \<open>response\<close>, and the next render throws.
\<close>

lemma render_after_failure_Part000:
  "render Part000 (final (handleUpload Part000 env s (Rejected e)))
     = Throws (TypeError ''personal_info'')"
  by (simp add: render_def App_def bind_def panel_Part000_def guard_def handleUpload_Part000_def)

section \<open>Section scores\<close>

text \<open>A section score that is missing or falsy is replaced by the placeholder.\<close>

lemma section_score_falsy:
  assumes "map_of g ''section_scores'' = Some (Obj ss)"
    and "case map_of ss k of None \<Rightarrow> True | Some v \<Rightarrow> \<not> truthy v"
  shows "section_score (Obj g) k = Ok (Str ''N/A'')"
  using assms
  by (cases "map_of ss k") (simp_all add: section_score_def bind_def or_else_def)










end
